theory Spec2Isabelle
  imports Main "HOL-Library.Sublist" "HOL-Library.Char_ord" "HOL-Library.List_Lexorder"
begin

section \<open>Text: Python strings over Latin-1\<close>

text \<open>
  The notebook hands the vectorizer raw archive members (bytes) together with
  \<^verbatim>\<open>encoding='latin1'\<close>, so every text the tokenizers see is a sequence of code points
  0..255. A text is therefore a \<^typ>\<open>string\<close>, one \<^typ>\<open>char\<close> per code point.

  \<^verbatim>\<open>str.isalpha()\<close> is true of a non-empty string all of whose characters are letters;
  in the Latin-1 range the letters are A-Z, a-z, the ordinal indicators (170, 186), the
  micro sign (181) and 192..255 without the multiplication and division signs (215, 247).
  \<^verbatim>\<open>str.lower()\<close> maps A-Z and 192..222 (without 215) to the code point 32 higher and
  leaves every other character of the range alone.
\<close>

definition isalpha_char :: "char \<Rightarrow> bool" where
  "isalpha_char c =
     (let n = (of_char c :: nat) in
        (65 \<le> n \<and> n \<le> 90) \<or> (97 \<le> n \<and> n \<le> 122) \<or> n = 170 \<or> n = 181 \<or> n = 186 \<or>
        (192 \<le> n \<and> n \<le> 214) \<or> (216 \<le> n \<and> n \<le> 246) \<or> (248 \<le> n \<and> n \<le> 255))"

definition isalpha :: "string \<Rightarrow> bool" where
  "isalpha s = (s \<noteq> [] \<and> list_all isalpha_char s)"

definition lower_char :: "char \<Rightarrow> char" where
  "lower_char c =
     (let n = (of_char c :: nat) in
        if (65 \<le> n \<and> n \<le> 90) \<or> (192 \<le> n \<and> n \<le> 214) \<or> (216 \<le> n \<and> n \<le> 222)
        then char_of (n + 32) else c)"

definition lower :: "string \<Rightarrow> string" where
  "lower s = map lower_char s"

section \<open>The two tokenizers\<close>

text \<open>
  \<^verbatim>\<open>
  class SimpleTokenizer(object):
      def __init__(self):
          self.stopWords = set(ENGLISH_STOP_WORDS)
      def __call__(self, doc):
          return [t for t in word_tokenize(doc)
                  if t.isalpha() and t.lower() not in self.stopWords]

  class LemmaTokenizer(object):
      def __init__(self):
          self.stemmer = EnglishStemmer()
          self.stopWords = set(ENGLISH_STOP_WORDS)
      def __call__(self, doc):
          return [self.stemmer.stem(t) for t in word_tokenize(doc)
                  if t.isalpha() and t not in self.stopWords]
  \<close>
  \<^verbatim>\<open>word_tokenize\<close> and \<^verbatim>\<open>EnglishStemmer\<close> are NLTK's and \<^verbatim>\<open>ENGLISH_STOP_WORDS\<close> is
  scikit-learn's: the notebook imports them and holds none of their code. They are
  parameters of the model: \<open>word_tokenize\<close> any function from a text to its tokens, the
  stemmer any function on tokens, the stopword list any set of strings.
\<close>

record SimpleTokenizer =
  stopWords :: "string set"

record LemmaTokenizer =
  stemmer :: "string \<Rightarrow> string"
  stopWords :: "string set"

definition SimpleTokenizer_init :: "string set \<Rightarrow> SimpleTokenizer" where
  "SimpleTokenizer_init ENGLISH_STOP_WORDS = \<lparr>SimpleTokenizer.stopWords = ENGLISH_STOP_WORDS\<rparr>"

definition SimpleTokenizer_call ::
  "(string \<Rightarrow> string list) \<Rightarrow> SimpleTokenizer \<Rightarrow> string \<Rightarrow> string list" where
  "SimpleTokenizer_call word_tokenize self doc =
     [t. t \<leftarrow> word_tokenize doc, isalpha t \<and> lower t \<notin> SimpleTokenizer.stopWords self]"

definition LemmaTokenizer_init :: "(string \<Rightarrow> string) \<Rightarrow> string set \<Rightarrow> LemmaTokenizer" where
  "LemmaTokenizer_init EnglishStemmer_stem ENGLISH_STOP_WORDS =
     \<lparr>stemmer = EnglishStemmer_stem, LemmaTokenizer.stopWords = ENGLISH_STOP_WORDS\<rparr>"

definition LemmaTokenizer_call ::
  "(string \<Rightarrow> string list) \<Rightarrow> LemmaTokenizer \<Rightarrow> string \<Rightarrow> string list" where
  "LemmaTokenizer_call word_tokenize self doc =
     [stemmer self t. t \<leftarrow> word_tokenize doc, isalpha t \<and> t \<notin> LemmaTokenizer.stopWords self]"

text \<open>
  The order of the specification's section 4.1 for the stemming configuration, written
  out for comparison with \<open>LemmaTokenizer_call\<close>: every alphabetic token is stemmed
  first and the stem is what is looked up in the stopword set.
\<close>

definition LemmaTokenizer_stem_first ::
  "(string \<Rightarrow> string list) \<Rightarrow> LemmaTokenizer \<Rightarrow> string \<Rightarrow> string list" where
  "LemmaTokenizer_stem_first word_tokenize self doc =
     [s. t \<leftarrow> word_tokenize doc, isalpha t, s \<leftarrow> [stemmer self t],
         s \<notin> LemmaTokenizer.stopWords self]"

section \<open>Loading the corpus\<close>

text \<open>
  Both sections of the notebook open the same archive and run the same loop, once filling
  \<^verbatim>\<open>ns_corpus\<close>, \<^verbatim>\<open>ns_label\<close> and once \<^verbatim>\<open>corpus\<close>, \<^verbatim>\<open>label\<close>:
  \<^verbatim>\<open>
  with ZipFile('AutoAndElectronics.zip') as rawData:
      for info in rawData.infolist():
          if info.is_dir():
              continue
          ns_label.append(1 if 'rec.autos' in info.filename else 0)
          ns_corpus.append(rawData.read(info))
  \<close>
  An archive is the list of its members in \<^verbatim>\<open>infolist()\<close> order, each with what
  \<^verbatim>\<open>rawData.read(info)\<close> gives for it: the member's bytes, or the exception raised for a
  damaged member. \<^verbatim>\<open>is_dir()\<close> is true of a member whose name ends with a slash.
\<close>

datatype error = BadZipFile | ValueError

type_synonym bytes = string

record ZipInfo =
  filename :: string

type_synonym ZipFile = "(ZipInfo \<times> (error + bytes)) list"

definition is_dir :: "ZipInfo \<Rightarrow> bool" where
  "is_dir info = suffix ''/'' (filename info)"

fun ns_load_loop :: "ZipFile \<Rightarrow> bytes list \<times> int list \<Rightarrow> error + bytes list \<times> int list" where
  "ns_load_loop [] (ns_corpus, ns_label) = Inr (ns_corpus, ns_label)"
| "ns_load_loop ((info, member) # rawData) (ns_corpus, ns_label) =
     (if is_dir info then ns_load_loop rawData (ns_corpus, ns_label)
      else case member of
             Inl e \<Rightarrow> Inl e
           | Inr data \<Rightarrow>
               ns_load_loop rawData
                 (ns_corpus @ [data],
                  ns_label @ [if sublist ''rec.autos'' (filename info) then 1 else 0]))"

definition ns_load :: "ZipFile \<Rightarrow> error + bytes list \<times> int list" where
  "ns_load rawData = ns_load_loop rawData ([], [])"

fun load_loop :: "ZipFile \<Rightarrow> bytes list \<times> int list \<Rightarrow> error + bytes list \<times> int list" where
  "load_loop [] (corpus, label) = Inr (corpus, label)"
| "load_loop ((info, member) # rawData) (corpus, label) =
     (if is_dir info then load_loop rawData (corpus, label)
      else case member of
             Inl e \<Rightarrow> Inl e
           | Inr data \<Rightarrow>
               load_loop rawData
                 (corpus @ [data],
                  label @ [if sublist ''rec.autos'' (filename info) then 1 else 0]))"

definition load :: "ZipFile \<Rightarrow> error + bytes list \<times> int list" where
  "load rawData = load_loop rawData ([], [])"

section \<open>Vectorizing the corpus\<close>

text \<open>
  \<^verbatim>\<open>
  ns_preprocessor = CountVectorizer(tokenizer=SimpleTokenizer(), encoding='latin1')
  ns_preprocessedText = ns_preprocessor.fit_transform(ns_corpus)
  preprocessor = CountVectorizer(tokenizer=LemmaTokenizer(), encoding='latin1')
  preprocessedText = preprocessor.fit_transform(corpus)
  \<close>
  \<^verbatim>\<open>CountVectorizer\<close> is scikit-learn's. The notebook sets the tokenizer and the
  encoding and leaves every other option at its default, so a document is decoded as
  Latin-1 (one character per byte), lower-cased, and only then handed to the tokenizer;
  the vocabulary is the set of all tokens of all documents in sorted order; entry (i, j)
  of the matrix counts the occurrences of term j among the tokens of document i; an empty
  vocabulary is a \<^verbatim>\<open>ValueError\<close>. The lower-casing shows in the notebook's own output: the
  tokenizer without stemming returns tokens as they are written, and the most frequent
  terms it reports for the news headers (\<^verbatim>\<open>Subject:\<close>, \<^verbatim>\<open>Lines:\<close>, \<^verbatim>\<open>Date:\<close>) are
  \<^verbatim>\<open>subject\<close>, \<^verbatim>\<open>lines\<close>, \<^verbatim>\<open>date\<close>.
\<close>

definition build_analyzer :: "(string \<Rightarrow> string list) \<Rightarrow> bytes \<Rightarrow> string list" where
  "build_analyzer tokenizer doc = tokenizer (lower doc)"

definition CountVectorizer_fit_transform ::
  "(string \<Rightarrow> string list) \<Rightarrow> bytes list \<Rightarrow> error + string list \<times> nat list list" where
  "CountVectorizer_fit_transform tokenizer raw_documents =
     (let analyzed = map (build_analyzer tokenizer) raw_documents;
          vocabulary = sort (remdups (concat analyzed))
      in if vocabulary = [] then Inl ValueError
         else Inr (vocabulary, map (\<lambda>tokens. map (count_list tokens) vocabulary) analyzed))"

definition ns_preprocessor_fit_transform ::
  "(string \<Rightarrow> string list) \<Rightarrow> string set \<Rightarrow> bytes list \<Rightarrow> error + string list \<times> nat list list" where
  "ns_preprocessor_fit_transform word_tokenize ENGLISH_STOP_WORDS ns_corpus =
     CountVectorizer_fit_transform
       (SimpleTokenizer_call word_tokenize (SimpleTokenizer_init ENGLISH_STOP_WORDS)) ns_corpus"

definition preprocessor_fit_transform ::
  "(string \<Rightarrow> string list) \<Rightarrow> (string \<Rightarrow> string) \<Rightarrow> string set \<Rightarrow> bytes list \<Rightarrow>
     error + string list \<times> nat list list" where
  "preprocessor_fit_transform word_tokenize EnglishStemmer_stem ENGLISH_STOP_WORDS corpus =
     CountVectorizer_fit_transform
       (LemmaTokenizer_call word_tokenize
          (LemmaTokenizer_init EnglishStemmer_stem ENGLISH_STOP_WORDS)) corpus"

section \<open>Concrete library values for running the model\<close>

text \<open>
  To run the definitions on concrete input, the library parameters need values: a
  tokenizer that cuts a text at blanks (what \<^verbatim>\<open>word_tokenize\<close> returns for words
  separated by single blanks, without punctuation), an excerpt of \<^verbatim>\<open>ENGLISH_STOP_WORDS\<close>,
  and the values of the English Snowball stemmer at the words the examples stem: it
  lower-cases its argument, strips the plural s of \<^verbatim>\<open>systems\<close>, \<^verbatim>\<open>parts\<close>, \<^verbatim>\<open>cars\<close>
  and \<^verbatim>\<open>lines\<close>, and leaves \<^verbatim>\<open>the\<close> and \<^verbatim>\<open>car\<close> as they are. The notebook's two
  term tables show the last rule at work: \<^verbatim>\<open>lines\<close> without stemming, \<^verbatim>\<open>line\<close> with it.
\<close>

fun split_blank :: "string \<Rightarrow> string \<Rightarrow> string list" where
  "split_blank [] w = (if w = [] then [] else [rev w])"
| "split_blank (c # cs) w =
     (if c = CHR '' '' then (if w = [] then split_blank cs [] else rev w # split_blank cs [])
      else split_blank cs (c # w))"

definition sample_word_tokenize :: "string \<Rightarrow> string list" where
  "sample_word_tokenize doc = split_blank doc []"

definition sample_stop_words :: "string set" where
  "sample_stop_words = set [''the'', ''and'', ''of'', ''always'', ''system'', ''part'']"

definition sample_stem :: "string \<Rightarrow> string" where
  "sample_stem t =
     (let w = lower t in
      if w \<in> set [''systems'', ''parts'', ''cars'', ''lines''] then butlast w else w)"

definition sample_archive :: ZipFile where
  "sample_archive =
     [(\<lparr>filename = ''AutoAndElectronics/''\<rparr>, Inr []),
      (\<lparr>filename = ''AutoAndElectronics/rec.autos/''\<rparr>, Inr []),
      (\<lparr>filename = ''AutoAndElectronics/rec.autos/101551''\<rparr>, Inr ''The car and cars''),
      (\<lparr>filename = ''AutoAndElectronics/sci.electronics/''\<rparr>, Inr []),
      (\<lparr>filename = ''AutoAndElectronics/sci.electronics/52434''\<rparr>, Inr ''Cars lines'')]"

section \<open>What the tokenizers return\<close>

text \<open>A Python list comprehension with a condition is a filter followed by a map.\<close>

lemma comprehension_map_filter: "[f t. t \<leftarrow> xs, P t] = map f (filter P xs)"
  by (induction xs) simp_all

lemma comprehension_filter: "[t. t \<leftarrow> xs, P t] = filter P xs"
  by (induction xs) simp_all

lemma LemmaTokenizer_call_map_filter:
  "LemmaTokenizer_call wt self doc =
     map (stemmer self) (filter (\<lambda>t. isalpha t \<and> t \<notin> LemmaTokenizer.stopWords self) (wt doc))"
  unfolding LemmaTokenizer_call_def by (rule comprehension_map_filter)

lemma SimpleTokenizer_call_filter:
  "SimpleTokenizer_call wt self doc =
     filter (\<lambda>t. isalpha t \<and> lower t \<notin> SimpleTokenizer.stopWords self) (wt doc)"
  unfolding SimpleTokenizer_call_def by (rule comprehension_filter)

text \<open>
  C3, as stated, fails for the stemming configuration. \<^verbatim>\<open>LemmaTokenizer\<close> compares
  the token as tokenized, capitals included, against the stopword set and returns the
  stem of each token that passes. On the document \<^verbatim>\<open>The systems\<close> neither \<^verbatim>\<open>The\<close> nor
  \<^verbatim>\<open>systems\<close> is a stopword, their stems \<^verbatim>\<open>the\<close> and \<^verbatim>\<open>system\<close> both are, and both
  are returned.
\<close>

theorem LemmaTokenizer_emits_stopwords:
  "LemmaTokenizer_call sample_word_tokenize (LemmaTokenizer_init sample_stem sample_stop_words)
     ''The systems'' = [''the'', ''system'']
   \<and> ''the'' \<in> sample_stop_words \<and> ''system'' \<in> sample_stop_words"
  by code_simp

text \<open>
  C3, amended. For every document, with a stopword set of lower-case words (as
  \<^verbatim>\<open>ENGLISH_STOP_WORDS\<close> is) and a stemmer that turns the document's alphabetic tokens
  into alphabetic strings: every token \<^verbatim>\<open>SimpleTokenizer\<close> returns is alphabetic, its
  lower-case form is not a stopword and neither is the token itself; every token
  \<^verbatim>\<open>LemmaTokenizer\<close> returns is alphabetic and is the stem of an alphabetic token of the
  document that is not, as written, a stopword. Nothing is said about the stem being a
  stopword or not.
\<close>

theorem tokenizer_outputs:
  assumes "\<forall>s\<in>ENGLISH_STOP_WORDS. lower s = s"
      and "\<forall>t\<in>set (word_tokenize doc). isalpha t \<longrightarrow> isalpha (stem t)"
  shows "(\<forall>t\<in>set (SimpleTokenizer_call word_tokenize (SimpleTokenizer_init ENGLISH_STOP_WORDS) doc).
            isalpha t \<and> lower t \<notin> ENGLISH_STOP_WORDS \<and> t \<notin> ENGLISH_STOP_WORDS)
       \<and> (\<forall>s\<in>set (LemmaTokenizer_call word_tokenize
                     (LemmaTokenizer_init stem ENGLISH_STOP_WORDS) doc).
            isalpha s
            \<and> (\<exists>t\<in>set (word_tokenize doc). s = stem t \<and> isalpha t \<and> t \<notin> ENGLISH_STOP_WORDS))"
proof -
  have simple: "isalpha t \<and> lower t \<notin> ENGLISH_STOP_WORDS \<and> t \<notin> ENGLISH_STOP_WORDS"
    if "t \<in> set (SimpleTokenizer_call word_tokenize (SimpleTokenizer_init ENGLISH_STOP_WORDS) doc)"
    for t
  proof -
    from that have a: "isalpha t" and l: "lower t \<notin> ENGLISH_STOP_WORDS"
      by (simp_all add: SimpleTokenizer_call_filter SimpleTokenizer_init_def)
    from l assms(1) have "t \<notin> ENGLISH_STOP_WORDS" by metis
    with a l show ?thesis by simp
  qed
  have stemmed:
    "isalpha s
     \<and> (\<exists>t\<in>set (word_tokenize doc). s = stem t \<and> isalpha t \<and> t \<notin> ENGLISH_STOP_WORDS)"
    if "s \<in> set (LemmaTokenizer_call word_tokenize (LemmaTokenizer_init stem ENGLISH_STOP_WORDS) doc)"
    for s
  proof -
    from that obtain t where t: "t \<in> set (word_tokenize doc)" "s = stem t" "isalpha t"
        "t \<notin> ENGLISH_STOP_WORDS"
      by (auto simp: LemmaTokenizer_call_map_filter LemmaTokenizer_init_def)
    from assms(2) t(1) t(3) have "isalpha (stem t)" by blast
    with t show ?thesis by blast
  qed
  from simple stemmed show ?thesis by blast
qed

text \<open>The amended C3 on the document \<^verbatim>\<open>The Systems of cars\<close>.\<close>

theorem tokenizer_outputs_witness:
  "SimpleTokenizer_call sample_word_tokenize (SimpleTokenizer_init sample_stop_words)
     ''The Systems of cars'' = [''Systems'', ''cars'']
   \<and> (isalpha ''Systems'' \<and> lower ''Systems'' \<notin> sample_stop_words
        \<and> ''Systems'' \<notin> sample_stop_words)
   \<and> (isalpha ''cars'' \<and> lower ''cars'' \<notin> sample_stop_words \<and> ''cars'' \<notin> sample_stop_words)
   \<and> LemmaTokenizer_call sample_word_tokenize
         (LemmaTokenizer_init sample_stem sample_stop_words) ''The Systems of cars''
       = [''the'', ''system'', ''car'']
   \<and> (isalpha ''the''
        \<and> (\<exists>t\<in>set (sample_word_tokenize ''The Systems of cars'').
              ''the'' = sample_stem t \<and> isalpha t \<and> t \<notin> sample_stop_words))
   \<and> (isalpha ''system''
        \<and> (\<exists>t\<in>set (sample_word_tokenize ''The Systems of cars'').
              ''system'' = sample_stem t \<and> isalpha t \<and> t \<notin> sample_stop_words))
   \<and> (isalpha ''car''
        \<and> (\<exists>t\<in>set (sample_word_tokenize ''The Systems of cars'').
              ''car'' = sample_stem t \<and> isalpha t \<and> t \<notin> sample_stop_words))"
proof -
  have h: "\<forall>s\<in>sample_stop_words. lower s = s" by code_simp
  have a: "\<forall>t\<in>set (sample_word_tokenize ''The Systems of cars'').
             isalpha t \<longrightarrow> isalpha (sample_stem t)"
    by code_simp
  have s: "SimpleTokenizer_call sample_word_tokenize (SimpleTokenizer_init sample_stop_words)
             ''The Systems of cars'' = [''Systems'', ''cars'']"
    by code_simp
  have l: "LemmaTokenizer_call sample_word_tokenize
             (LemmaTokenizer_init sample_stem sample_stop_words) ''The Systems of cars''
           = [''the'', ''system'', ''car'']"
    by code_simp
  note r = tokenizer_outputs
      [where word_tokenize = sample_word_tokenize and doc = "''The Systems of cars''"
         and stem = sample_stem and ENGLISH_STOP_WORDS = sample_stop_words,
       OF h a, unfolded s l]
  from r have simple: "\<forall>t\<in>set [''Systems'', ''cars''].
      isalpha t \<and> lower t \<notin> sample_stop_words \<and> t \<notin> sample_stop_words"
    by (rule conjunct1)
  from r have stemmed: "\<forall>s\<in>set [''the'', ''system'', ''car''].
      isalpha s
      \<and> (\<exists>t\<in>set (sample_word_tokenize ''The Systems of cars'').
            s = sample_stem t \<and> isalpha t \<and> t \<notin> sample_stop_words)"
    by (rule conjunct2)
  have s1: "isalpha ''Systems'' \<and> lower ''Systems'' \<notin> sample_stop_words
            \<and> ''Systems'' \<notin> sample_stop_words"
    by (rule bspec [OF simple]) simp
  have s2: "isalpha ''cars'' \<and> lower ''cars'' \<notin> sample_stop_words \<and> ''cars'' \<notin> sample_stop_words"
    by (rule bspec [OF simple]) simp
  have l1: "isalpha ''the''
            \<and> (\<exists>t\<in>set (sample_word_tokenize ''The Systems of cars'').
                  ''the'' = sample_stem t \<and> isalpha t \<and> t \<notin> sample_stop_words)"
    by (rule bspec [OF stemmed]) simp
  have l2: "isalpha ''system''
            \<and> (\<exists>t\<in>set (sample_word_tokenize ''The Systems of cars'').
                  ''system'' = sample_stem t \<and> isalpha t \<and> t \<notin> sample_stop_words)"
    by (rule bspec [OF stemmed]) simp
  have l3: "isalpha ''car''
            \<and> (\<exists>t\<in>set (sample_word_tokenize ''The Systems of cars'').
                  ''car'' = sample_stem t \<and> isalpha t \<and> t \<notin> sample_stop_words)"
    by (rule bspec [OF stemmed]) simp
  show ?thesis
    by (rule conjI [OF s conjI [OF s1 conjI [OF s2 conjI [OF l conjI [OF l1 conjI [OF l2 l3]]]]]])
qed

text \<open>
  C4, as stated, fails: the stemming configuration does not stem before the stopword
  comparison. On the document \<^verbatim>\<open>parts\<close> the code compares \<^verbatim>\<open>parts\<close>, which is no
  stopword, and returns its stem \<^verbatim>\<open>part\<close>; stemming first would compare \<^verbatim>\<open>part\<close>,
  which is a stopword, and return nothing.
\<close>

theorem stem_first_differs:
  "LemmaTokenizer_call sample_word_tokenize (LemmaTokenizer_init sample_stem sample_stop_words)
     ''parts'' = [''part'']
   \<and> LemmaTokenizer_stem_first sample_word_tokenize
       (LemmaTokenizer_init sample_stem sample_stop_words) ''parts'' = []"
  by code_simp

text \<open>
  C4, amended. In the stemming configuration the stopword comparison is made on the token
  as tokenized, neither lower-cased nor stemmed, and the stemming rewrite is applied
  afterwards, to the tokens that passed the comparison; the non-stemming configuration
  compares the lower-cased token and returns the token as tokenized.
\<close>

theorem stopword_check_precedes_stemming:
  "LemmaTokenizer_call word_tokenize self doc =
     map (stemmer self)
       (filter (\<lambda>t. isalpha t \<and> t \<notin> LemmaTokenizer.stopWords self) (word_tokenize doc))
   \<and> SimpleTokenizer_call word_tokenize self' doc =
     filter (\<lambda>t. isalpha t \<and> lower t \<notin> SimpleTokenizer.stopWords self') (word_tokenize doc)"
  using LemmaTokenizer_call_map_filter SimpleTokenizer_call_filter by simp

text \<open>The amended C4 on the document \<^verbatim>\<open>The always parts\<close>.\<close>

theorem stopword_check_precedes_stemming_witness:
  "LemmaTokenizer_call sample_word_tokenize (LemmaTokenizer_init sample_stem sample_stop_words)
     ''The always parts''
   = map sample_stem
       (filter (\<lambda>t. isalpha t \<and> t \<notin> sample_stop_words) (sample_word_tokenize ''The always parts''))
   \<and> SimpleTokenizer_call sample_word_tokenize (SimpleTokenizer_init sample_stop_words)
       ''The always parts''
   = filter (\<lambda>t. isalpha t \<and> lower t \<notin> sample_stop_words)
       (sample_word_tokenize ''The always parts'')
   \<and> map sample_stem
       (filter (\<lambda>t. isalpha t \<and> t \<notin> sample_stop_words) (sample_word_tokenize ''The always parts''))
     = [''the'', ''part'']
   \<and> filter (\<lambda>t. isalpha t \<and> lower t \<notin> sample_stop_words)
       (sample_word_tokenize ''The always parts'')
     = [''parts'']"
proof -
  have e: "map sample_stem
             (filter (\<lambda>t. isalpha t \<and> t \<notin> sample_stop_words)
                (sample_word_tokenize ''The always parts''))
           = [''the'', ''part'']
         \<and> filter (\<lambda>t. isalpha t \<and> lower t \<notin> sample_stop_words)
             (sample_word_tokenize ''The always parts'')
           = [''parts'']"
    by code_simp
  have "LemmaTokenizer_call sample_word_tokenize
          (LemmaTokenizer_init sample_stem sample_stop_words) ''The always parts''
        = map sample_stem
            (filter (\<lambda>t. isalpha t \<and> t \<notin> sample_stop_words)
               (sample_word_tokenize ''The always parts''))
      \<and> SimpleTokenizer_call sample_word_tokenize (SimpleTokenizer_init sample_stop_words)
          ''The always parts''
        = filter (\<lambda>t. isalpha t \<and> lower t \<notin> sample_stop_words)
            (sample_word_tokenize ''The always parts'')"
    using stopword_check_precedes_stemming
      [of sample_word_tokenize "LemmaTokenizer_init sample_stem sample_stop_words"
          "''The always parts''" "SimpleTokenizer_init sample_stop_words"]
    by (simp only: LemmaTokenizer_init_def SimpleTokenizer_init_def
        LemmaTokenizer.simps SimpleTokenizer.simps)
  with e show ?thesis by (simp only: simp_thms)
qed

section \<open>Vocabulary sizes\<close>

text \<open>
  On a text whose alphabetic tokens are all lower-case the two stopword comparisons
  agree, and the stemming tokenizer returns the stems of what the other one returns.
\<close>

lemma LemmaTokenizer_map_SimpleTokenizer:
  assumes "\<forall>t\<in>set (wt doc). isalpha t \<longrightarrow> lower t = t"
  shows "LemmaTokenizer_call wt (LemmaTokenizer_init stem SW) doc =
         map stem (SimpleTokenizer_call wt (SimpleTokenizer_init SW) doc)"
proof -
  have "filter (\<lambda>t. isalpha t \<and> t \<notin> SW) (wt doc) = filter (\<lambda>t. isalpha t \<and> lower t \<notin> SW) (wt doc)"
    using assms by (intro filter_cong) auto
  then show ?thesis
    by (simp add: LemmaTokenizer_call_map_filter SimpleTokenizer_call_filter
        LemmaTokenizer_init_def SimpleTokenizer_init_def)
qed

lemma analyzed_stemmed:
  assumes "\<forall>d\<in>set corpus. \<forall>t\<in>set (wt (lower d)). isalpha t \<longrightarrow> lower t = t"
  shows "concat (map (build_analyzer (LemmaTokenizer_call wt (LemmaTokenizer_init stem SW))) corpus) =
         map stem (concat (map (build_analyzer (SimpleTokenizer_call wt (SimpleTokenizer_init SW))) corpus))"
proof -
  have "map (build_analyzer (LemmaTokenizer_call wt (LemmaTokenizer_init stem SW))) corpus =
        map (\<lambda>d. map stem (build_analyzer (SimpleTokenizer_call wt (SimpleTokenizer_init SW)) d)) corpus"
  proof (rule map_cong [OF refl])
    fix d assume "d \<in> set corpus"
    with assms have "\<forall>t\<in>set (wt (lower d)). isalpha t \<longrightarrow> lower t = t" by (rule bspec)
    then show "build_analyzer (LemmaTokenizer_call wt (LemmaTokenizer_init stem SW)) d =
               map stem (build_analyzer (SimpleTokenizer_call wt (SimpleTokenizer_init SW)) d)"
      unfolding build_analyzer_def by (rule LemmaTokenizer_map_SimpleTokenizer)
  qed
  then show ?thesis by (simp only: map_concat map_map o_def)
qed

text \<open>
  Lower-casing is idempotent, so whatever is cut out of a lower-cased text is lower-case:
  a tokenizer whose alphabetic tokens are pieces of its input meets the hypothesis of the
  vocabulary theorem below on every corpus.
\<close>

lemma lower_char_idem: "lower_char (lower_char c) = lower_char c"
  by (auto simp: lower_char_def Let_def)

lemma lower_idem: "lower (lower s) = lower s"
  by (simp add: lower_def lower_char_idem)

lemma sublist_lower:
  assumes "sublist t (lower d)"
  shows "lower t = t"
proof -
  from assms obtain ps ss where "lower d = ps @ t @ ss" by (auto simp: sublist_def)
  then obtain u where "t = lower u"
    unfolding lower_def by (auto simp: map_eq_append_conv append_eq_map_conv)
  then show ?thesis by (simp add: lower_idem)
qed

lemma substring_tokens_are_lower:
  assumes "\<forall>doc. \<forall>t\<in>set (word_tokenize doc). isalpha t \<longrightarrow> sublist t doc"
  shows "\<forall>d\<in>set corpus. \<forall>t\<in>set (word_tokenize (lower d)). isalpha t \<longrightarrow> lower t = t"
  using assms sublist_lower by blast

text \<open>The vocabulary is empty exactly when no document has a token left.\<close>

lemma vocabulary_empty: "sort (remdups xs) = [] \<longleftrightarrow> xs = []"
  by (metis set_empty set_remdups set_sort)

lemma fit_transform_cases:
  "CountVectorizer_fit_transform tok docs =
     (if concat (map (build_analyzer tok) docs) = [] then Inl ValueError
      else Inr (sort (remdups (concat (map (build_analyzer tok) docs))),
                map (\<lambda>tokens. map (count_list tokens)
                       (sort (remdups (concat (map (build_analyzer tok) docs)))))
                  (map (build_analyzer tok) docs)))"
  unfolding CountVectorizer_fit_transform_def Let_def vocabulary_empty ..

text \<open>
  C6. For every corpus, the vocabulary built with stemming is not larger than the one
  built without: both vectorizers fail together on a corpus without tokens, and
  otherwise the stemmed vocabulary is the image of the other one under the stemmer.
  The vectorizer lower-cases each document before tokenizing it; the hypothesis is that
  \<^verbatim>\<open>word_tokenize\<close> cuts only lower-case alphabetic tokens from such a text (it cuts
  them out of the text as they stand).
\<close>

theorem stemmed_vocabulary_not_larger:
  assumes "\<forall>d\<in>set corpus. \<forall>t\<in>set (word_tokenize (lower d)). isalpha t \<longrightarrow> lower t = t"
  shows "(preprocessor_fit_transform word_tokenize stem ENGLISH_STOP_WORDS corpus = Inl ValueError
          \<and> ns_preprocessor_fit_transform word_tokenize ENGLISH_STOP_WORDS corpus = Inl ValueError)
       \<or> (\<exists>vocabulary X ns_vocabulary ns_X.
            preprocessor_fit_transform word_tokenize stem ENGLISH_STOP_WORDS corpus
              = Inr (vocabulary, X)
          \<and> ns_preprocessor_fit_transform word_tokenize ENGLISH_STOP_WORDS corpus
              = Inr (ns_vocabulary, ns_X)
          \<and> set vocabulary = stem ` set ns_vocabulary
          \<and> length vocabulary \<le> length ns_vocabulary)"
proof -
  define L where "L = LemmaTokenizer_call word_tokenize (LemmaTokenizer_init stem ENGLISH_STOP_WORDS)"
  define S where "S = SimpleTokenizer_call word_tokenize (SimpleTokenizer_init ENGLISH_STOP_WORDS)"
  define A where "A = concat (map (build_analyzer S) corpus)"
  have st: "concat (map (build_analyzer L) corpus) = map stem A"
    unfolding L_def S_def A_def using assms by (rule analyzed_stemmed)
  have p: "preprocessor_fit_transform word_tokenize stem ENGLISH_STOP_WORDS corpus =
             (if A = [] then Inl ValueError
              else Inr (sort (remdups (map stem A)),
                        map (\<lambda>tokens. map (count_list tokens) (sort (remdups (map stem A))))
                          (map (build_analyzer L) corpus)))"
    unfolding preprocessor_fit_transform_def fit_transform_cases L_def [symmetric] st by simp
  have n: "ns_preprocessor_fit_transform word_tokenize ENGLISH_STOP_WORDS corpus =
             (if A = [] then Inl ValueError
              else Inr (sort (remdups A),
                        map (\<lambda>tokens. map (count_list tokens) (sort (remdups A)))
                          (map (build_analyzer S) corpus)))"
    unfolding ns_preprocessor_fit_transform_def fit_transform_cases S_def [symmetric] A_def [symmetric]
    by (rule refl)
  show ?thesis
  proof (cases "A = []")
    case True
    with p n show ?thesis by simp
  next
    case False
    have "card (stem ` set A) \<le> card (set A)" by (simp add: card_image_le)
    then have "length (sort (remdups (map stem A))) \<le> length (sort (remdups A))"
      by (simp add: length_remdups_card_conv)
    moreover have "set (sort (remdups (map stem A))) = stem ` set (sort (remdups A))" by simp
    ultimately show ?thesis using p n False by simp
  qed
qed

text \<open>
  C6 on a corpus of two documents: \<^verbatim>\<open>car\<close> and \<^verbatim>\<open>cars\<close> are two terms without
  stemming and one with it.
\<close>

theorem stemmed_vocabulary_not_larger_witness:
  "preprocessor_fit_transform sample_word_tokenize sample_stem sample_stop_words
         [''The car and cars'', ''Cars lines'']
       = Inr ([''car'', ''line''], [[2, 0], [1, 1]])
   \<and> ns_preprocessor_fit_transform sample_word_tokenize sample_stop_words
         [''The car and cars'', ''Cars lines'']
       = Inr ([''car'', ''cars'', ''lines''], [[1, 1, 0], [0, 1, 1]])
   \<and> set [''car'', ''line''] = sample_stem ` set [''car'', ''cars'', ''lines'']
   \<and> length [''car'', ''line''] \<le> length [''car'', ''cars'', ''lines'']"
proof -
  have h: "\<forall>d\<in>set [''The car and cars'', ''Cars lines''].
             \<forall>t\<in>set (sample_word_tokenize (lower d)). isalpha t \<longrightarrow> lower t = t"
    by code_simp
  have p: "preprocessor_fit_transform sample_word_tokenize sample_stem sample_stop_words
             [''The car and cars'', ''Cars lines'']
           = Inr ([''car'', ''line''], [[2, 0], [1, 1]])"
    by code_simp
  have n: "ns_preprocessor_fit_transform sample_word_tokenize sample_stop_words
             [''The car and cars'', ''Cars lines'']
           = Inr ([''car'', ''cars'', ''lines''], [[1, 1, 0], [0, 1, 1]])"
    by code_simp
  from stemmed_vocabulary_not_larger [OF h, of sample_stem sample_stop_words]
  have c: "set [''car'', ''line''] = sample_stem ` set [''car'', ''cars'', ''lines'']
           \<and> length [''car'', ''line''] \<le> length [''car'', ''cars'', ''lines'']"
    unfolding p n by simp
  show ?thesis by (rule conjI [OF p conjI [OF n c]])
qed

section \<open>The two label vectors\<close>

lemma ns_load_loop_eq_load_loop: "ns_load_loop rawData acc = load_loop rawData acc"
proof (induction rawData arbitrary: acc)
  case Nil
  show ?case by (cases acc) simp
next
  case (Cons entry rawData)
  obtain info member where e: "entry = (info, member)" by (cases entry)
  obtain c l where a: "acc = (c, l)" by (cases acc)
  show ?case unfolding e a by (cases member) (simp_all add: Cons.IH)
qed

lemma load_loop_result:
  "load_loop rawData (corpus0, label0) = Inr (corpus, label) \<Longrightarrow>
     label = label0 @ map (\<lambda>info. if sublist ''rec.autos'' (filename info) then 1 else 0)
                        (filter (\<lambda>info. \<not> is_dir info) (map fst rawData))
     \<and> length corpus = length corpus0 + length (filter (\<lambda>info. \<not> is_dir info) (map fst rawData))"
proof (induction rawData "(corpus0, label0)" arbitrary: corpus0 label0 rule: load_loop.induct)
  case (1 corpus0 label0)
  then show ?case by simp
next
  case (2 info member rawData corpus0 label0)
  show ?case
  proof (cases "is_dir info")
    case True
    with 2 show ?thesis by simp
  next
    case False
    show ?thesis
    proof (cases member)
      case (Inl e)
      with 2(3) False show ?thesis by simp
    next
      case (Inr data)
      with 2(2) [OF False Inr] 2(3) False show ?thesis by simp
    qed
  qed
qed

text \<open>
  C10. Both loading passes over the same archive give the same label vector: one label
  per member that is not a directory, in archive order, 1 if the member's name contains
  \<^verbatim>\<open>rec.autos\<close> and 0 otherwise. It has as many entries as \<^verbatim>\<open>ns_corpus\<close> has
  documents, so pairing the rows of the non-stemmed feature matrix with \<^verbatim>\<open>label\<close>, as
  \<^verbatim>\<open>train_test_split(lsa_tfidf, label, ...)\<close> does, is pairing them with \<^verbatim>\<open>ns_label\<close>.
\<close>

theorem label_vectors_agree:
  assumes "ns_load rawData = Inr (ns_corpus, ns_label)"
      and "load rawData = Inr (corpus, label)"
  shows "ns_label = label
       \<and> label = map (\<lambda>info. if sublist ''rec.autos'' (filename info) then 1 else 0)
                    (filter (\<lambda>info. \<not> is_dir info) (map fst rawData))
       \<and> length label = length ns_corpus
       \<and> zip lsa_tfidf label = zip lsa_tfidf ns_label"
proof -
  from assms have eq: "ns_corpus = corpus" "ns_label = label"
    by (simp_all add: ns_load_def load_def ns_load_loop_eq_load_loop)
  from assms(2) load_loop_result [of rawData "[]" "[]" corpus label]
  have "label = map (\<lambda>info. if sublist ''rec.autos'' (filename info) then 1 else 0)
                    (filter (\<lambda>info. \<not> is_dir info) (map fst rawData))"
    and "length corpus = length (filter (\<lambda>info. \<not> is_dir info) (map fst rawData))"
    by (simp_all add: load_def)
  with eq show ?thesis by simp
qed

text \<open>C10 on an archive of three directories and two documents.\<close>

theorem label_vectors_agree_witness:
  "ns_load sample_archive = Inr ([''The car and cars'', ''Cars lines''], [1, 0])
   \<and> load sample_archive = Inr ([''The car and cars'', ''Cars lines''], [1, 0])
   \<and> length [1, 0 :: int] = length [''The car and cars'', ''Cars lines'']
   \<and> zip [[1, 1, 0], [0, 1, 1 :: nat]] [1, 0 :: int] = zip [[1, 1, 0], [0, 1, 1]] [1, 0]"
proof -
  have n: "ns_load sample_archive = Inr ([''The car and cars'', ''Cars lines''], [1, 0])"
    by code_simp
  have l: "load sample_archive = Inr ([''The car and cars'', ''Cars lines''], [1, 0])"
    by code_simp
  have "length [1, 0 :: int] = length [''The car and cars'', ''Cars lines'']
        \<and> zip [[1, 1, 0], [0, 1, 1 :: nat]] [1, 0 :: int] = zip [[1, 1, 0], [0, 1, 1]] [1, 0]"
    using label_vectors_agree [OF n l, of "[[1, 1, 0], [0, 1, 1 :: nat]]"] by blast
  with n l show ?thesis by blast
qed

end
